theory Spec2Isabelle
  imports Complex_Main
begin

section \<open>Data model\<close>

text \<open>
  The attendance engine of \<^verbatim>\<open>src/services/reportService.ts\<close>. The declarations of
  \<^verbatim>\<open>../types\<close> and \<^verbatim>\<open>../constants\<close> are not part of the sources at hand: the
  record types below carry the fields the service reads and writes, and the three
  constants are fields of a configuration record that every function takes.
\<close>

datatype AttendanceStatus =
  PRESENT | ABSENT | HALF_DAY | SHORT_HOURS | WEEKEND | HOLIDAY
  | WORK_ON_WEEKEND | WORK_ON_HOLIDAY | UNKNOWN

text \<open>
  A JavaScript number is a finite value or NaN. Finite values are read as the reals they
  denote, so comparisons are exact; the rounding of double arithmetic and the two
  infinities are outside the model.
\<close>

datatype number = Num real | NaN

definition num_gt :: "number \<Rightarrow> number \<Rightarrow> bool" where
  "num_gt a b = (case (a, b) of (Num x, Num y) \<Rightarrow> x > y | _ \<Rightarrow> False)"

definition num_ge :: "number \<Rightarrow> number \<Rightarrow> bool" where
  "num_ge a b = (case (a, b) of (Num x, Num y) \<Rightarrow> x \<ge> y | _ \<Rightarrow> False)"

definition num_lt :: "number \<Rightarrow> number \<Rightarrow> bool" where
  "num_lt a b = (case (a, b) of (Num x, Num y) \<Rightarrow> x < y | _ \<Rightarrow> False)"

text \<open>The operator \<^verbatim>\<open>===\<close> on numbers: NaN is not equal to itself.\<close>

definition num_strict_eq :: "number \<Rightarrow> number \<Rightarrow> bool" where
  "num_strict_eq a b = (case (a, b) of (Num x, Num y) \<Rightarrow> x = y | _ \<Rightarrow> False)"

definition num_add :: "number \<Rightarrow> number \<Rightarrow> number" where
  "num_add a b = (case (a, b) of (Num x, Num y) \<Rightarrow> Num (x + y) | _ \<Rightarrow> NaN)"

definition isNaN :: "number \<Rightarrow> bool" where
  "isNaN a = (case a of NaN \<Rightarrow> True | Num _ \<Rightarrow> False)"

text \<open>
  A \<^verbatim>\<open>Date\<close> holds a time value, the milliseconds since the epoch, or is the
  Invalid Date, whose time value is NaN.
\<close>

datatype Date = TimeValue int | InvalidDate

datatype error = RangeError

record AttendanceRecord =
  id' :: string
  date :: Date
  name :: string
  inTime :: "string option"
  outTime :: "string option"
  totalHours :: "string option"
  workHoursDecimal :: number
  status :: AttendanceStatus
  reason :: string
  isAiEnhanced :: bool

record EmployeeData =
  employeeName :: string
  records :: "AttendanceRecord list"

record Holiday =
  holiday_date :: string
  holiday_name :: string

datatype StatValue = NumberValue int | StringValue string

record Stat =
  label :: string
  "value" :: StatValue
  color :: string
  totalHoursDecimal :: "number option"

text \<open>
  The constants of \<^verbatim>\<open>../constants\<close>, and the local time zone adjustment of the host:
  \<open>LocalTZA cfg t True\<close> is the offset of local time from UTC, in milliseconds, in force
  at the time value \<open>t\<close>, and \<open>LocalTZA cfg t False\<close> the offset with which the local
  time \<open>t\<close> is read. A host with daylight-saving time has an adjustment that changes
  with \<open>t\<close>.
\<close>

record config =
  WEEKEND_DAYS :: "int list"
  FULL_DAY_HOURS :: number
  HALF_DAY_HOURS :: number
  LocalTZA :: "int \<Rightarrow> bool \<Rightarrow> int"

section \<open>Dates and their ISO rendering\<close>

definition msPerDay :: int where
  "msPerDay = 86400000"

definition Day :: "int \<Rightarrow> int" where
  "Day t = t div msPerDay"

definition DayFromYear :: "int \<Rightarrow> int" where
  "DayFromYear y =
     365 * (y - 1970) + (y - 1969) div 4 - (y - 1901) div 100 + (y - 1601) div 400"

text \<open>The year of a day number: an estimate from the mean year length, off by at most one.\<close>

definition YearFromDay :: "int \<Rightarrow> int" where
  "YearFromDay d =
     (let y0 = 1970 + (400 * d) div 146097
      in if d < DayFromYear y0 then y0 - 1
         else if DayFromYear (y0 + 1) \<le> d then y0 + 1
         else y0)"

definition InLeapYear :: "int \<Rightarrow> bool" where
  "InLeapYear y = (y mod 4 = 0 \<and> (y mod 100 \<noteq> 0 \<or> y mod 400 = 0))"

text \<open>Month (1 to 12) and day of the month from the day within the year.\<close>

definition MonthDate :: "bool \<Rightarrow> int \<Rightarrow> int \<times> int" where
  "MonthDate leap d =
     (let l = (if leap then 1 else 0)
      in if d < 31 then (1, d + 1)
         else if d < 59 + l then (2, d - 30)
         else if d < 90 + l then (3, d - 58 - l)
         else if d < 120 + l then (4, d - 89 - l)
         else if d < 151 + l then (5, d - 119 - l)
         else if d < 181 + l then (6, d - 150 - l)
         else if d < 212 + l then (7, d - 180 - l)
         else if d < 243 + l then (8, d - 211 - l)
         else if d < 273 + l then (9, d - 242 - l)
         else if d < 304 + l then (10, d - 272 - l)
         else if d < 334 + l then (11, d - 303 - l)
         else (12, d - 333 - l))"

definition digit :: "nat \<Rightarrow> char" where
  "digit n = ''0123456789'' ! n"

fun digits :: "nat \<Rightarrow> string" where
  "digits n = (if n < 10 then [digit n] else digits (n div 10) @ [digit (n mod 10)])"

declare digits.simps [simp del]

definition padStart :: "nat \<Rightarrow> char \<Rightarrow> string \<Rightarrow> string" where
  "padStart n c s = replicate (n - length s) c @ s"

definition yearString :: "int \<Rightarrow> string" where
  "yearString y =
     (if 0 \<le> y \<and> y \<le> 9999 then padStart 4 (CHR ''0'') (digits (nat y))
      else (if y < 0 then ''-'' else ''+'') @ padStart 6 (CHR ''0'') (digits (nat \<bar>y\<bar>)))"

text \<open>\<^verbatim>\<open>toISOString().split('T')[0]\<close> of a valid time value: the UTC date.\<close>

definition isoDate :: "int \<Rightarrow> string" where
  "isoDate t =
     (let d = Day t; y = YearFromDay d;
          (m, dd) = MonthDate (InLeapYear y) (d - DayFromYear y)
      in yearString y @ ''-'' @ padStart 2 (CHR ''0'') (digits (nat m))
           @ ''-'' @ padStart 2 (CHR ''0'') (digits (nat dd)))"

text \<open>\<^verbatim>\<open>toISOString\<close> raises a RangeError on the Invalid Date.\<close>

definition toISODate :: "Date \<Rightarrow> error + string" where
  "toISODate d = (case d of InvalidDate \<Rightarrow> Inl RangeError | TimeValue t \<Rightarrow> Inr (isoDate t))"

definition LocalTime :: "config \<Rightarrow> int \<Rightarrow> int" where
  "LocalTime cfg t = t + LocalTZA cfg t True"

definition UTCTime :: "config \<Rightarrow> int \<Rightarrow> int" where
  "UTCTime cfg t = t - LocalTZA cfg t False"

text \<open>\<^verbatim>\<open>getDay()\<close>: the weekday in local time, 0 for Sunday; the epoch was a Thursday.\<close>

definition getDay :: "config \<Rightarrow> int \<Rightarrow> int" where
  "getDay cfg t = (Day (LocalTime cfg t) + 4) mod 7"

section \<open>Status Classifier\<close>

definition isHoliday :: "string set \<Rightarrow> int \<Rightarrow> bool" where
  "isHoliday holidayDates t = (isoDate t \<in> holidayDates)"

definition isWeekend :: "config \<Rightarrow> int \<Rightarrow> bool" where
  "isWeekend cfg t = (getDay cfg t \<in> set (WEEKEND_DAYS cfg))"

text \<open>The condition of the first test in the zero-hours branch of \<^verbatim>\<open>getStatus\<close>.\<close>

definition outOfOfficeFullDay :: "config \<Rightarrow> AttendanceRecord \<Rightarrow> bool" where
  "outOfOfficeFullDay cfg record =
     (reason record = ''Out of Office''
      \<and> num_strict_eq (workHoursDecimal record) (FULL_DAY_HOURS cfg))"

definition getStatus :: "config \<Rightarrow> AttendanceRecord \<Rightarrow> string set \<Rightarrow> error + AttendanceStatus" where
  "getStatus cfg record holidayDates =
     (case date record of
        InvalidDate \<Rightarrow> Inl RangeError
      | TimeValue t \<Rightarrow>
          if num_gt (workHoursDecimal record) (Num 0) then
            (if isHoliday holidayDates t then Inr WORK_ON_HOLIDAY
             else if isWeekend cfg t then Inr WORK_ON_WEEKEND
             else if num_ge (workHoursDecimal record) (FULL_DAY_HOURS cfg) then Inr PRESENT
             else if num_ge (workHoursDecimal record) (HALF_DAY_HOURS cfg) then Inr SHORT_HOURS
             else Inr HALF_DAY)
          else
            (if outOfOfficeFullDay cfg record then Inr PRESENT
             else if isHoliday holidayDates t then Inr HOLIDAY
             else if isWeekend cfg t then Inr WEEKEND
             else Inr ABSENT))"

section \<open>Clock Formatter\<close>

text \<open>\<^verbatim>\<open>Math.round\<close>: the nearest integer, a tie going up.\<close>

definition Math_round :: "real \<Rightarrow> int" where
  "Math_round x = \<lfloor>x + 1 / 2\<rfloor>"

text \<open>
  Past the guard the argument is a finite number that is not negative. Hours and minutes
  are whole numbers, rendered in decimal digits (as \<^verbatim>\<open>toString\<close> does below
  \<^verbatim>\<open>1e21\<close>).
\<close>

definition decimalToTimeString :: "number \<Rightarrow> string" where
  "decimalToTimeString decimalHours =
     (if isNaN decimalHours \<or> num_lt decimalHours (Num 0) then ''0:00''
      else
        (case decimalHours of
           Num x \<Rightarrow>
             (let totalMinutes = Math_round (x * 60);
                  hours = totalMinutes div 60;
                  minutes = totalMinutes mod 60
              in padStart 2 (CHR ''0'') (digits (nat hours)) @ '':''
                   @ padStart 2 (CHR ''0'') (digits (nat minutes)))
         | NaN \<Rightarrow> ''0:00''))"

section \<open>Calendar Reconciler\<close>

text \<open>Relational operators on dates compare time values; with NaN they are false.\<close>

definition date_lt :: "Date \<Rightarrow> Date \<Rightarrow> bool" where
  "date_lt a b = (case (a, b) of (TimeValue x, TimeValue y) \<Rightarrow> x < y | _ \<Rightarrow> False)"

definition date_le :: "Date \<Rightarrow> Date \<Rightarrow> bool" where
  "date_le a b = (case (a, b) of (TimeValue x, TimeValue y) \<Rightarrow> x \<le> y | _ \<Rightarrow> False)"

text \<open>One round of the loop that finds the earliest and the latest date.\<close>

definition minMaxStep :: "Date option \<times> Date option \<Rightarrow> Date \<Rightarrow> Date option \<times> Date option" where
  "minMaxStep acc recordDate =
     (case acc of (minDate, maxDate) \<Rightarrow>
        ((case minDate of None \<Rightarrow> Some recordDate
          | Some mn \<Rightarrow> if date_lt recordDate mn then Some recordDate else Some mn),
         (case maxDate of None \<Rightarrow> Some recordDate
          | Some mx \<Rightarrow> if date_lt mx recordDate then Some recordDate else Some mx)))"

definition minMaxDates :: "EmployeeData list \<Rightarrow> Date option \<times> Date option" where
  "minMaxDates employees =
     foldl (\<lambda>acc employee. foldl minMaxStep acc (map date (records employee)))
       (None, None) employees"

text \<open>
  The entries of \<^verbatim>\<open>recordsMap\<close>, in the order of the records; rendering the key
  raises on a record with the Invalid Date.
\<close>

fun recordEntries :: "AttendanceRecord list \<Rightarrow> error + (string \<times> AttendanceRecord) list" where
  "recordEntries [] = Inr []"
| "recordEntries (r # rs) =
     (case toISODate (date r) of
        Inl e \<Rightarrow> Inl e
      | Inr k \<Rightarrow> (case recordEntries rs of Inl e \<Rightarrow> Inl e | Inr es \<Rightarrow> Inr ((k, r) # es)))"

text \<open>\<^verbatim>\<open>new Map(entries)\<close>: the entries are set in order, a later one replacing an earlier.\<close>

definition newMap :: "(string \<times> AttendanceRecord) list \<Rightarrow> (string \<rightharpoonup> AttendanceRecord)" where
  "newMap entries = foldl (\<lambda>m (k, v). m(k \<mapsto> v)) Map.empty entries"

definition placeholder :: "string \<Rightarrow> string \<Rightarrow> Date \<Rightarrow> AttendanceRecord" where
  "placeholder employee dateString currentDate =
     \<lparr> id' = employee @ ''-'' @ dateString,
       date = currentDate,
       name = employee,
       inTime = None,
       outTime = None,
       totalHours = None,
       workHoursDecimal = Num 0,
       status = UNKNOWN,
       reason = '''',
       isAiEnhanced = False \<rparr>"

text \<open>A time value outside the range of \<^verbatim>\<open>Date\<close> makes the Invalid Date.\<close>

definition TimeClip :: "int \<Rightarrow> Date" where
  "TimeClip t = (if \<bar>t\<bar> > 8640000000000000 then InvalidDate else TimeValue t)"

text \<open>
  \<^verbatim>\<open>currentDate.setDate(currentDate.getDate() + 1)\<close>: the day of the month is read and
  set in local time, so the local time moves on by one day, and the result is read back
  with the adjustment that holds there. Across a change of the adjustment the time value
  moves by more or by less than a day.
\<close>

definition setDateNextDay :: "config \<Rightarrow> Date \<Rightarrow> Date" where
  "setDateNextDay cfg d =
     (case d of
        InvalidDate \<Rightarrow> InvalidDate
      | TimeValue t \<Rightarrow> TimeClip (UTCTime cfg (LocalTime cfg t + msPerDay)))"

text \<open>
  The \<^verbatim>\<open>while (currentDate <= maxDate)\<close> loop for one employee; the last argument is
  \<^verbatim>\<open>newRecords\<close>, to which each round pushes a record. Nothing makes the time value
  grow from round to round on every host, so the loop is a partial function: \<open>None\<close> says
  that it does not return.
\<close>

partial_function (option) fillDays ::
  "config \<Rightarrow> string set \<Rightarrow> string \<Rightarrow> (string \<rightharpoonup> AttendanceRecord) \<Rightarrow> Date \<Rightarrow> Date
     \<Rightarrow> AttendanceRecord list \<Rightarrow> (error + AttendanceRecord list) option" where
  "fillDays cfg holidayDates employee recordsMap currentDate maxDate newRecords =
     (if date_le currentDate maxDate then
        (case toISODate currentDate of
           Inl e \<Rightarrow> Some (Inl e)
         | Inr dateString \<Rightarrow>
             (let record = (case recordsMap dateString of
                              Some r \<Rightarrow> r
                            | None \<Rightarrow> placeholder employee dateString currentDate)
              in case getStatus cfg record holidayDates of
                   Inl e \<Rightarrow> Some (Inl e)
                 | Inr s \<Rightarrow>
                     fillDays cfg holidayDates employee recordsMap
                       (setDateNextDay cfg currentDate) maxDate
                       (newRecords @ [record\<lparr>status := s\<rparr>])))
      else Some (Inr newRecords))"

declare fillDays.simps [code]

text \<open>
  The key of the comparator \<^verbatim>\<open>a.date.getTime() - b.date.getTime()\<close>. Every record that
  reaches the sort carries a valid date: it went through \<^verbatim>\<open>toISOString\<close> or was
  made from \<^verbatim>\<open>currentDate\<close> inside the loop.
\<close>

definition getTime :: "Date \<Rightarrow> int" where
  "getTime d = (case d of TimeValue t \<Rightarrow> t | InvalidDate \<Rightarrow> 0)"

definition analyzeEmployee ::
  "config \<Rightarrow> string set \<Rightarrow> Date \<Rightarrow> Date \<Rightarrow> EmployeeData \<Rightarrow> (error + EmployeeData) option" where
  "analyzeEmployee cfg holidayDates minDate maxDate employee =
     (case recordEntries (records employee) of
        Inl e \<Rightarrow> Some (Inl e)
      | Inr entries \<Rightarrow>
          (case fillDays cfg holidayDates (employeeName employee) (newMap entries)
                  minDate maxDate [] of
             None \<Rightarrow> None
           | Some (Inl e) \<Rightarrow> Some (Inl e)
           | Some (Inr newRecords) \<Rightarrow>
               Some (Inr \<lparr> employeeName = employeeName employee,
                           records = sort_key (\<lambda>r. getTime (date r)) newRecords \<rparr>)))"

fun analyzeEmployees ::
  "config \<Rightarrow> string set \<Rightarrow> Date \<Rightarrow> Date \<Rightarrow> EmployeeData list
     \<Rightarrow> (error + EmployeeData list) option" where
  "analyzeEmployees cfg holidayDates minDate maxDate [] = Some (Inr [])"
| "analyzeEmployees cfg holidayDates minDate maxDate (employee # employees) =
     (case analyzeEmployee cfg holidayDates minDate maxDate employee of
        None \<Rightarrow> None
      | Some (Inl e) \<Rightarrow> Some (Inl e)
      | Some (Inr a) \<Rightarrow>
          (case analyzeEmployees cfg holidayDates minDate maxDate employees of
             None \<Rightarrow> None
           | Some (Inl e) \<Rightarrow> Some (Inl e)
           | Some (Inr as) \<Rightarrow> Some (Inr (a # as))))"

definition analyzeData ::
  "config \<Rightarrow> EmployeeData list \<Rightarrow> Holiday list \<Rightarrow> (error + EmployeeData list) option" where
  "analyzeData cfg employees holidays =
     (if employees = [] then Some (Inr [])
      else
        (let holidayDates = set (map holiday_date holidays)
         in case minMaxDates employees of
              (Some minDate, Some maxDate) \<Rightarrow>
                analyzeEmployees cfg holidayDates minDate maxDate employees
            | _ \<Rightarrow> Some (Inr employees)))"

section \<open>Summary Aggregator\<close>

definition countStatus :: "(AttendanceStatus \<Rightarrow> bool) \<Rightarrow> AttendanceRecord list \<Rightarrow> int" where
  "countStatus p rs = int (length (filter (\<lambda>r. p (status r)) rs))"

definition present :: "AttendanceRecord list \<Rightarrow> int" where
  "present rs = countStatus (\<lambda>s. s = PRESENT) rs"

definition absent :: "AttendanceRecord list \<Rightarrow> int" where
  "absent rs = countStatus (\<lambda>s. s = ABSENT) rs"

definition halfDays :: "AttendanceRecord list \<Rightarrow> int" where
  "halfDays rs = countStatus (\<lambda>s. s = HALF_DAY) rs"

definition shortHours :: "AttendanceRecord list \<Rightarrow> int" where
  "shortHours rs = countStatus (\<lambda>s. s = SHORT_HOURS) rs"

definition holidays :: "AttendanceRecord list \<Rightarrow> int" where
  "holidays rs = countStatus (\<lambda>s. s = HOLIDAY \<or> s = WORK_ON_HOLIDAY) rs"

definition weekends :: "AttendanceRecord list \<Rightarrow> int" where
  "weekends rs = countStatus (\<lambda>s. s = WEEKEND \<or> s = WORK_ON_WEEKEND) rs"

definition workOnHoliday :: "AttendanceRecord list \<Rightarrow> int" where
  "workOnHoliday rs = countStatus (\<lambda>s. s = WORK_ON_HOLIDAY) rs"

definition totalHoursDecimalOf :: "AttendanceRecord list \<Rightarrow> number" where
  "totalHoursDecimalOf rs = foldl (\<lambda>sum r. num_add sum (workHoursDecimal r)) (Num 0) rs"

text \<open>The decimal text of a count, as a template literal renders it.\<close>

definition toString :: "int \<Rightarrow> string" where
  "toString n = (if n < 0 then ''-'' @ digits (nat (- n)) else digits (nat n))"

definition generateSummaryStats :: "AttendanceRecord list \<Rightarrow> Stat list" where
  "generateSummaryStats rs =
     (let totalDays = int (length rs);
          totalWorkableDays = totalDays - holidays rs - weekends rs;
          total = totalHoursDecimalOf rs;
          totalHoursFormatted = decimalToTimeString total
      in [ \<lparr> label = ''Total Workable Days'', value = NumberValue totalWorkableDays,
             color = ''bg-blue-500'', totalHoursDecimal = None \<rparr>,
           \<lparr> label = ''Present Days'', value = NumberValue (present rs),
             color = ''bg-green-500'', totalHoursDecimal = None \<rparr>,
           \<lparr> label = ''Absent Days'', value = NumberValue (absent rs),
             color = ''bg-red-500'', totalHoursDecimal = None \<rparr>,
           \<lparr> label = ''Short/Half Days'',
             value = StringValue (toString (shortHours rs) @ ''/'' @ toString (halfDays rs)),
             color = ''bg-yellow-500'', totalHoursDecimal = None \<rparr>,
           \<lparr> label = ''Work on Holiday'', value = NumberValue (workOnHoliday rs),
             color = ''bg-purple-500'', totalHoursDecimal = None \<rparr>,
           \<lparr> label = ''Total Hours Worked'', value = StringValue totalHoursFormatted,
             color = ''bg-slate-700'', totalHoursDecimal = Some total \<rparr> ])"

section \<open>Report Exporter: the name of the written file\<close>

text \<open>\<^verbatim>\<open>String.prototype.replace\<close> with a string pattern replaces the first occurrence only.\<close>

fun replace :: "char \<Rightarrow> char \<Rightarrow> string \<Rightarrow> string" where
  "replace p c [] = []"
| "replace p c (x # xs) = (if x = p then c # xs else x # replace p c xs)"

text \<open>The first argument is the time value of \<^verbatim>\<open>new Date()\<close>, the moment of the export.\<close>

definition exportFileName :: "int \<Rightarrow> string \<Rightarrow> string" where
  "exportFileName now employeeName' =
     ''Attendance_Report_'' @ replace (CHR '' '') (CHR ''_'') employeeName' @ ''_''
       @ isoDate now @ ''.xlsx''"

section \<open>Auxiliary notions for the proofs\<close>

text \<open>
  The real a number stands for; the value of a decimal numeral; the dates of a
  collection, and the UTC days of its records, employee by employee.
\<close>

definition realOf :: "number \<Rightarrow> real" where
  "realOf a = (case a of Num x \<Rightarrow> x | NaN \<Rightarrow> 0)"

definition digitValue :: "char \<Rightarrow> nat" where
  "digitValue c = length (takeWhile (\<lambda>d. d \<noteq> c) ''0123456789'')"

definition decimalValue :: "string \<Rightarrow> nat" where
  "decimalValue s = foldl (\<lambda>acc c. 10 * acc + digitValue c) 0 s"

definition allDates :: "EmployeeData list \<Rightarrow> Date list" where
  "allDates employees = concat (map (\<lambda>e. map date (records e)) employees)"

definition recordDays :: "EmployeeData list \<Rightarrow> string list list" where
  "recordDays employees = map (\<lambda>e. map (\<lambda>r. isoDate (getTime (date r))) (records e)) employees"

section \<open>Sample data\<close>

text \<open>
  A configuration with the weekend on Sunday and Saturday, a full day of eight hours and
  a half day of four, on a host in UTC; and records on given days. Time value 345600000
  is Monday 1970-01-05, 172800000 is Saturday 1970-01-03.
\<close>

definition sampleConfig :: config where
  "sampleConfig =
     \<lparr> WEEKEND_DAYS = [0, 6], FULL_DAY_HOURS = Num 8, HALF_DAY_HOURS = Num 4,
       LocalTZA = (\<lambda>t isUTC. 0) \<rparr>"

definition sampleRecord :: "int \<Rightarrow> number \<Rightarrow> string \<Rightarrow> AttendanceStatus \<Rightarrow> AttendanceRecord" where
  "sampleRecord t h why s =
     \<lparr> id' = ''r'', date = TimeValue t, name = ''Asha'', inTime = None, outTime = None,
       totalHours = None, workHoursDecimal = h, status = s, reason = why,
       isAiEnhanced = False \<rparr>"

definition sampleRecords :: "AttendanceRecord list" where
  "sampleRecords =
     [sampleRecord 345600000 (Num 8) '''' PRESENT,
      sampleRecord 432000000 (Num 5) '''' SHORT_HOURS,
      sampleRecord 518400000 (Num 0) '''' HOLIDAY,
      sampleRecord 604800000 (Num 0) '''' ABSENT,
      sampleRecord 691200000 (Num 2.5) '''' WORK_ON_WEEKEND]"

text \<open>
  Two employees with one record each, on Monday 1970-01-05 and on Friday 1970-01-09, at
  midnight UTC; and one employee with records at 20:00 on 1970-01-01, at 05:00 on
  1970-01-02 and at 10:00 on 1970-01-03.
\<close>

definition sampleEmployees :: "EmployeeData list" where
  "sampleEmployees =
     [\<lparr> employeeName = ''Asha'', records = [sampleRecord 345600000 (Num 8) '''' UNKNOWN] \<rparr>,
      \<lparr> employeeName = ''Ben'',
        records = [(sampleRecord 691200000 (Num 0) '''' UNKNOWN)\<lparr>name := ''Ben''\<rparr>] \<rparr>]"

definition unalignedEmployees :: "EmployeeData list" where
  "unalignedEmployees =
     [\<lparr> employeeName = ''Asha'',
        records = [sampleRecord 72000000 (Num 8) '''' UNKNOWN,
                   sampleRecord 104400000 (Num 5) '''' UNKNOWN,
                   sampleRecord 208800000 (Num 8) '''' UNKNOWN] \<rparr>]"

text \<open>
  The same configuration on a host in New York around the change to daylight time on
  2024-03-10: five hours behind UTC before 07:00 UTC of that day (time value
  1710054000000) and four hours behind from then on; a local time is read five hours
  behind up to 03:00 of that day (1710039600000 as a local time) and four hours behind
  from then on. With it, one employee with records at midnight UTC of 2024-03-09 and of
  2024-03-12.
\<close>

definition newYorkConfig :: config where
  "newYorkConfig =
     sampleConfig
       \<lparr> LocalTZA :=
           (\<lambda>t isUTC. if t < (if isUTC then 1710054000000 else 1710039600000)
                       then - 18000000 else - 14400000) \<rparr>"

definition marchEmployees :: "EmployeeData list" where
  "marchEmployees =
     [\<lparr> employeeName = ''Asha'',
        records = [sampleRecord 1709942400000 (Num 8) '''' UNKNOWN,
                   sampleRecord 1710201600000 (Num 8) '''' UNKNOWN] \<rparr>]"

section \<open>Properties of the Status Classifier\<close>

lemma sample_weekday: "\<not> isWeekend sampleConfig 345600000"
  by (simp add: isWeekend_def getDay_def LocalTime_def Day_def msPerDay_def sampleConfig_def)

lemma sample_saturday: "isWeekend sampleConfig 172800000"
  by (simp add: isWeekend_def getDay_def LocalTime_def Day_def msPerDay_def sampleConfig_def)

text \<open>
  C2. On a record with a valid date and finite hours and thresholds, the classifier
  follows the decision policy in its order: with positive hours a holiday gives
  WORK_ON_HOLIDAY, also on a weekend day; else a weekend day gives WORK_ON_WEEKEND; else
  hours of at least the full-day threshold give PRESENT, of at least the half-day
  threshold SHORT_HOURS, and fewer HALF_DAY. With zero hours, the Out of Office
  condition apart, a holiday gives HOLIDAY, else a weekend day WEEKEND, else ABSENT.
  With thresholds 8 and 4, away from holidays and weekends, 8 hours are PRESENT, 5
  SHORT_HOURS, 2 HALF_DAY and 0 ABSENT.
\<close>

theorem getStatus_policy:
  assumes "date r = TimeValue t" and "workHoursDecimal r = Num h"
    and "FULL_DAY_HOURS cfg = Num full" and "HALF_DAY_HOURS cfg = Num half"
  shows "(0 < h \<and> isHoliday hs t \<longrightarrow> getStatus cfg r hs = Inr WORK_ON_HOLIDAY)
    \<and> (0 < h \<and> \<not> isHoliday hs t \<and> isWeekend cfg t \<longrightarrow> getStatus cfg r hs = Inr WORK_ON_WEEKEND)
    \<and> (0 < h \<and> \<not> isHoliday hs t \<and> \<not> isWeekend cfg t \<and> full \<le> h
          \<longrightarrow> getStatus cfg r hs = Inr PRESENT)
    \<and> (0 < h \<and> \<not> isHoliday hs t \<and> \<not> isWeekend cfg t \<and> h < full \<and> half \<le> h
          \<longrightarrow> getStatus cfg r hs = Inr SHORT_HOURS)
    \<and> (0 < h \<and> \<not> isHoliday hs t \<and> \<not> isWeekend cfg t \<and> h < full \<and> h < half
          \<longrightarrow> getStatus cfg r hs = Inr HALF_DAY)
    \<and> (h = 0 \<and> \<not> outOfOfficeFullDay cfg r \<and> isHoliday hs t \<longrightarrow> getStatus cfg r hs = Inr HOLIDAY)
    \<and> (h = 0 \<and> \<not> outOfOfficeFullDay cfg r \<and> \<not> isHoliday hs t \<and> isWeekend cfg t
          \<longrightarrow> getStatus cfg r hs = Inr WEEKEND)
    \<and> (h = 0 \<and> \<not> outOfOfficeFullDay cfg r \<and> \<not> isHoliday hs t \<and> \<not> isWeekend cfg t
          \<longrightarrow> getStatus cfg r hs = Inr ABSENT)
    \<and> (full = 8 \<and> half = 4 \<and> \<not> isHoliday hs t \<and> \<not> isWeekend cfg t \<longrightarrow>
          (h = 8 \<longrightarrow> getStatus cfg r hs = Inr PRESENT)
          \<and> (h = 5 \<longrightarrow> getStatus cfg r hs = Inr SHORT_HOURS)
          \<and> (h = 2 \<longrightarrow> getStatus cfg r hs = Inr HALF_DAY)
          \<and> (h = 0 \<longrightarrow> getStatus cfg r hs = Inr ABSENT))"
  using assms
  by (simp add: getStatus_def num_gt_def num_ge_def outOfOfficeFullDay_def num_strict_eq_def)

theorem getStatus_policy_witness:
  "getStatus sampleConfig (sampleRecord 345600000 (Num 8) '''' UNKNOWN) {} = Inr PRESENT
   \<and> getStatus sampleConfig (sampleRecord 345600000 (Num 5) '''' UNKNOWN) {} = Inr SHORT_HOURS
   \<and> getStatus sampleConfig (sampleRecord 345600000 (Num 2) '''' UNKNOWN) {} = Inr HALF_DAY
   \<and> getStatus sampleConfig (sampleRecord 345600000 (Num 0) '''' UNKNOWN) {} = Inr ABSENT
   \<and> getStatus sampleConfig (sampleRecord 172800000 (Num 3) '''' UNKNOWN) {} = Inr WORK_ON_WEEKEND
   \<and> getStatus sampleConfig (sampleRecord 172800000 (Num 3) '''' UNKNOWN) {''1970-01-03''}
       = Inr WORK_ON_HOLIDAY"
proof -
  have hol: "isHoliday {''1970-01-03''} 172800000"
    unfolding isHoliday_def by code_simp
  have nohol: "\<not> isHoliday {} t" for t
    by (simp add: isHoliday_def)
  note p = getStatus_policy [where cfg = sampleConfig and full = 8 and half = 4]
  show ?thesis
    using p [where r = "sampleRecord 345600000 (Num 8) '''' UNKNOWN" and t = 345600000 and h = 8 and hs = "{}"]
      p [where r = "sampleRecord 345600000 (Num 5) '''' UNKNOWN" and t = 345600000 and h = 5 and hs = "{}"]
      p [where r = "sampleRecord 345600000 (Num 2) '''' UNKNOWN" and t = 345600000 and h = 2 and hs = "{}"]
      p [where r = "sampleRecord 345600000 (Num 0) '''' UNKNOWN" and t = 345600000 and h = 0 and hs = "{}"]
      p [where r = "sampleRecord 172800000 (Num 3) '''' UNKNOWN" and t = 172800000 and h = 3 and hs = "{}"]
      p [where r = "sampleRecord 172800000 (Num 3) '''' UNKNOWN" and t = 172800000 and h = 3 and hs = "{''1970-01-03''}"]
      sample_weekday sample_saturday hol nohol
    by (simp add: outOfOfficeFullDay_def sampleRecord_def sampleConfig_def)
qed


text \<open>
  C6. The Out of Office test of the zero-hours branch is dead code: with a positive
  full-day threshold, on every record that reaches the branch (hours not above zero,
  NaN included) the condition is false, and the classification goes on to the holiday,
  weekend and absent rules.
\<close>

theorem outOfOffice_unreachable:
  assumes "num_gt (FULL_DAY_HOURS cfg) (Num 0)"
    and "\<not> num_gt (workHoursDecimal r) (Num 0)"
  shows "\<not> outOfOfficeFullDay cfg r
    \<and> (\<forall>t. date r = TimeValue t \<longrightarrow>
          getStatus cfg r hs
            = Inr (if isHoliday hs t then HOLIDAY
                   else if isWeekend cfg t then WEEKEND else ABSENT))"
proof -
  have "\<not> num_strict_eq (workHoursDecimal r) (FULL_DAY_HOURS cfg)"
    using assms
    by (auto simp: num_gt_def num_strict_eq_def split: number.splits)
  then have dead: "\<not> outOfOfficeFullDay cfg r"
    by (simp add: outOfOfficeFullDay_def)
  then show ?thesis
    using assms(2) by (simp add: getStatus_def)
qed

theorem outOfOffice_unreachable_witness:
  "num_gt (FULL_DAY_HOURS sampleConfig) (Num 0)
   \<and> \<not> num_gt (workHoursDecimal (sampleRecord 345600000 (Num 0) ''Out of Office'' UNKNOWN)) (Num 0)
   \<and> reason (sampleRecord 345600000 (Num 0) ''Out of Office'' UNKNOWN) = ''Out of Office''
   \<and> \<not> outOfOfficeFullDay sampleConfig (sampleRecord 345600000 (Num 0) ''Out of Office'' UNKNOWN)
   \<and> getStatus sampleConfig (sampleRecord 345600000 (Num 0) ''Out of Office'' UNKNOWN) {}
       = Inr ABSENT"
  using outOfOffice_unreachable [where cfg = sampleConfig
      and r = "sampleRecord 345600000 (Num 0) ''Out of Office'' UNKNOWN" and hs = "{}"]
    sample_weekday
  by (simp add: sampleConfig_def sampleRecord_def num_gt_def isHoliday_def)

text \<open>
  As stated, C10 fails on a record whose date is the Invalid Date: the classifier reads
  the date string first, and \<^verbatim>\<open>toISOString\<close> raises, whatever the hours.
\<close>

theorem getStatus_nonpositive_hours_counterexample:
  "workHoursDecimal ((sampleRecord 345600000 (Num (- 3)) '''' UNKNOWN)\<lparr>date := InvalidDate\<rparr>)
     = Num (- 3)
   \<and> getStatus sampleConfig
         ((sampleRecord 345600000 (Num (- 3)) '''' UNKNOWN)\<lparr>date := InvalidDate\<rparr>) {}
       = Inl RangeError"
  by (simp add: getStatus_def sampleRecord_def)

text \<open>
  C10, amended. With a positive full-day threshold, on a record with hours at most zero,
  negative ones included, the classifier raises exactly when the date is the Invalid
  Date; on a valid date it returns HOLIDAY on a holiday, else WEEKEND on a weekend day,
  else ABSENT, and so none of the five work statuses.
\<close>

theorem getStatus_nonpositive_hours:
  assumes "num_gt (FULL_DAY_HOURS cfg) (Num 0)"
    and "workHoursDecimal r = Num h" and "h \<le> 0"
  shows "(getStatus cfg r hs = Inl RangeError \<longleftrightarrow> date r = InvalidDate)
    \<and> (\<forall>t. date r = TimeValue t \<longrightarrow>
          getStatus cfg r hs
            = Inr (if isHoliday hs t then HOLIDAY
                   else if isWeekend cfg t then WEEKEND else ABSENT)
          \<and> getStatus cfg r hs
              \<notin> Inr ` {PRESENT, WORK_ON_HOLIDAY, WORK_ON_WEEKEND, SHORT_HOURS, HALF_DAY})"
proof -
  have "\<not> num_strict_eq (workHoursDecimal r) (FULL_DAY_HOURS cfg)"
    using assms
    by (auto simp: num_gt_def num_strict_eq_def split: number.splits)
  then have "\<not> outOfOfficeFullDay cfg r"
    by (simp add: outOfOfficeFullDay_def)
  then show ?thesis
    using assms(2,3) by (cases "date r") (simp_all add: getStatus_def num_gt_def)
qed

theorem getStatus_nonpositive_hours_witness:
  "num_gt (FULL_DAY_HOURS sampleConfig) (Num 0) \<and> (- 3 :: real) \<le> 0
   \<and> getStatus sampleConfig (sampleRecord 172800000 (Num (- 3)) '''' UNKNOWN) {} = Inr WEEKEND
   \<and> getStatus sampleConfig (sampleRecord 345600000 (Num (- 3)) '''' UNKNOWN) {} = Inr ABSENT
   \<and> getStatus sampleConfig
         ((sampleRecord 345600000 (Num (- 3)) '''' UNKNOWN)\<lparr>date := InvalidDate\<rparr>) {}
       = Inl RangeError"
  using getStatus_nonpositive_hours [where cfg = sampleConfig and h = "- 3" and hs = "{}"
      and r = "sampleRecord 172800000 (Num (- 3)) '''' UNKNOWN"]
    getStatus_nonpositive_hours [where cfg = sampleConfig and h = "- 3" and hs = "{}"
      and r = "sampleRecord 345600000 (Num (- 3)) '''' UNKNOWN"]
    getStatus_nonpositive_hours [where cfg = sampleConfig and h = "- 3" and hs = "{}"
      and r = "(sampleRecord 345600000 (Num (- 3)) '''' UNKNOWN)\<lparr>date := InvalidDate\<rparr>"]
    sample_weekday sample_saturday
  by (simp add: sampleConfig_def sampleRecord_def num_gt_def isHoliday_def)

section \<open>Properties of the Clock Formatter\<close>

text \<open>
  Two of the equalities stated for C4 fail: half an hour is rendered with two hour
  digits, and 8.0083333 hours are 480.499998 minutes, which round down.
\<close>

theorem decimalToTimeString_counterexample:
  "decimalToTimeString (Num 0.5) \<noteq> ''0:30''
   \<and> decimalToTimeString (Num 8.0083333) \<noteq> ''08:01''"
  by code_simp

lemma decimalToTimeString_examples:
  "decimalToTimeString (Num 0.5) = ''00:30''"
  "decimalToTimeString (Num (- 1)) = ''0:00''"
  "decimalToTimeString NaN = ''0:00''"
  "decimalToTimeString (Num 8.0083333) = ''08:00''"
  by code_simp+

lemma decimalToTimeString_nonneg:
  assumes "0 \<le> x"
  shows "\<exists>h m. m < 60 \<and> \<bar>real (60 * h + m) - 60 * x\<bar> \<le> 1 / 2
           \<and> decimalToTimeString (Num x)
               = padStart 2 (CHR ''0'') (digits h) @ '':'' @ padStart 2 (CHR ''0'') (digits m)"
proof -
  define tm where "tm = Math_round (x * 60)"
  have tm0: "0 \<le> tm"
    using assms by (simp add: tm_def Math_round_def)
  have lo: "real_of_int tm \<le> x * 60 + 1 / 2" and hi: "x * 60 + 1 / 2 < real_of_int tm + 1"
    unfolding tm_def Math_round_def by linarith+
  define h where "h = nat (tm div 60)"
  define m where "m = nat (tm mod 60)"
  have m60: "m < 60"
    by (simp add: m_def)
  have "int (60 * h + m) = tm"
    using tm0 by (simp add: h_def m_def pos_imp_zdiv_nonneg_iff)
  then have "real (60 * h + m) = real_of_int tm"
    by (metis of_int_of_nat_eq)
  then have near: "\<bar>real (60 * h + m) - 60 * x\<bar> \<le> 1 / 2"
    using lo hi by linarith
  have "decimalToTimeString (Num x)
          = padStart 2 (CHR ''0'') (digits h) @ '':'' @ padStart 2 (CHR ''0'') (digits m)"
    using assms
    by (simp add: decimalToTimeString_def isNaN_def num_lt_def Let_def tm_def h_def m_def)
  with m60 near show ?thesis by blast
qed

text \<open>
  C4, amended. The formatter renders 0.5 as 00:30, -1 and NaN as 0:00 and 8.0083333 as
  08:00. Every negative input gives 0:00. For a non-negative input the text is the
  hours and the minutes, each padded to two digits, of one whole number of minutes that
  lies within half a minute of the input; the minutes are below 60.
\<close>

theorem decimalToTimeString_amended:
  "decimalToTimeString (Num 0.5) = ''00:30''
   \<and> decimalToTimeString (Num (- 1)) = ''0:00''
   \<and> decimalToTimeString NaN = ''0:00''
   \<and> decimalToTimeString (Num 8.0083333) = ''08:00''
   \<and> (x < 0 \<longrightarrow> decimalToTimeString (Num x) = ''0:00'')
   \<and> (0 \<le> x \<longrightarrow>
        (\<exists>h m. m < 60 \<and> \<bar>real (60 * h + m) - 60 * x\<bar> \<le> 1 / 2
           \<and> decimalToTimeString (Num x)
               = padStart 2 (CHR ''0'') (digits h) @ '':'' @ padStart 2 (CHR ''0'') (digits m)))"
proof -
  have "x < 0 \<longrightarrow> decimalToTimeString (Num x) = ''0:00''"
    by (simp add: decimalToTimeString_def num_lt_def)
  then show ?thesis
    using decimalToTimeString_examples decimalToTimeString_nonneg [of x] by blast
qed

theorem decimalToTimeString_amended_witness:
  "(- 3 :: real) < 0 \<and> decimalToTimeString (Num (- 3)) = ''0:00''
   \<and> (0 :: real) \<le> 119 / 120
   \<and> (\<exists>h m. m < 60 \<and> \<bar>real (60 * h + m) - 60 * (119 / 120)\<bar> \<le> 1 / 2
          \<and> decimalToTimeString (Num (119 / 120))
              = padStart 2 (CHR ''0'') (digits h) @ '':'' @ padStart 2 (CHR ''0'') (digits m))"
  using decimalToTimeString_amended [of "- 3"] decimalToTimeString_amended [of "119 / 120"]
  by simp

lemma decimalToTimeString_half_minute: "decimalToTimeString (Num (119 / 120)) = ''01:00''"
  by code_simp

section \<open>Properties of the Summary Aggregator\<close>

lemma countStatus_Cons:
  "countStatus p (r # rs) = (if p (status r) then 1 else 0) + countStatus p rs"
  by (simp add: countStatus_def)

lemma countStatus_Nil: "countStatus p [] = 0"
  by (simp add: countStatus_def)

text \<open>
  C7. On a record sequence without UNKNOWN statuses the counters partition the input:
  present, absent, half-day, short-hours, holiday (HOLIDAY and WORK_ON_HOLIDAY) and
  weekend (WEEKEND and WORK_ON_WEEKEND) counts add up to the number of records.
\<close>

theorem summary_counters_partition:
  assumes "\<forall>r \<in> set rs. status r \<noteq> UNKNOWN"
  shows "present rs + absent rs + halfDays rs + shortHours rs + holidays rs + weekends rs
           = int (length rs)"
  using assms
proof (induction rs)
  case Nil
  show ?case
    by (simp add: present_def absent_def halfDays_def shortHours_def holidays_def
        weekends_def countStatus_Nil)
next
  case (Cons r rs)
  then have ih: "present rs + absent rs + halfDays rs + shortHours rs + holidays rs + weekends rs
                   = int (length rs)" and known: "status r \<noteq> UNKNOWN"
    by simp_all
  show ?case
    using ih known
    by (cases "status r")
       (simp_all add: present_def absent_def halfDays_def shortHours_def holidays_def
          weekends_def countStatus_Cons)
qed

theorem summary_counters_partition_witness:
  "UNKNOWN \<notin> status ` set sampleRecords
   \<and> present sampleRecords + absent sampleRecords + halfDays sampleRecords
       + shortHours sampleRecords + holidays sampleRecords + weekends sampleRecords = 5"
  using summary_counters_partition [of sampleRecords]
  by (simp add: sampleRecords_def sampleRecord_def)

lemma countStatus_count_list:
  "countStatus (\<lambda>s. s = a) rs = int (count_list (map status rs) a)"
  by (induction rs) (simp_all add: countStatus_Cons countStatus_Nil)

lemma countStatus_either:
  "a \<noteq> b \<Longrightarrow> countStatus (\<lambda>s. s = a \<or> s = b) rs
     = int (count_list (map status rs) a) + int (count_list (map status rs) b)"
  by (induction rs) (auto simp: countStatus_Cons countStatus_Nil)

lemma foldl_num_add_NaN: "foldl (\<lambda>sum r. num_add sum (workHoursDecimal r)) NaN rs = NaN"
  by (induction rs) (simp_all add: num_add_def)

lemma foldl_num_add_Num:
  "foldl (\<lambda>sum r. num_add sum (workHoursDecimal r)) (Num a) rs
     = (if \<exists>r \<in> set rs. isNaN (workHoursDecimal r) then NaN
        else Num (a + sum_list (map (\<lambda>r. realOf (workHoursDecimal r)) rs)))"
proof (induction rs arbitrary: a)
  case Nil
  show ?case by simp
next
  case (Cons r rs)
  show ?case
  proof (cases "workHoursDecimal r")
    case (Num x)
    then show ?thesis
      using Cons.IH [of "a + x"] by (simp add: num_add_def isNaN_def realOf_def add.assoc)
  next
    case NaN
    then have "num_add (Num a) (workHoursDecimal r) = NaN" "isNaN (workHoursDecimal r)"
      by (simp_all add: num_add_def isNaN_def)
    then show ?thesis
      by (simp add: foldl_num_add_NaN)
  qed
qed

text \<open>
  C8. The aggregator returns six metrics in the order Total Workable Days, Present
  Days, Absent Days, Short/Half Days, Work on Holiday, Total Hours Worked. Total
  Workable Days is the number of records less those of status HOLIDAY or
  WORK_ON_HOLIDAY and less those of status WEEKEND or WORK_ON_WEEKEND; Short/Half Days
  is the text of the SHORT_HOURS count, a slash and the text of the HALF_DAY count;
  Total Hours Worked is the sum of the hours through the Clock Formatter, and carries
  the sum itself, which is NaN as soon as one record's hours are.
\<close>

theorem generateSummaryStats_metrics:
  "map label (generateSummaryStats rs)
     = [''Total Workable Days'', ''Present Days'', ''Absent Days'', ''Short/Half Days'',
        ''Work on Holiday'', ''Total Hours Worked'']
   \<and> map value (generateSummaryStats rs)
     = [NumberValue (int (length rs)
          - (int (count_list (map status rs) HOLIDAY)
              + int (count_list (map status rs) WORK_ON_HOLIDAY))
          - (int (count_list (map status rs) WEEKEND)
              + int (count_list (map status rs) WORK_ON_WEEKEND))),
        NumberValue (int (count_list (map status rs) PRESENT)),
        NumberValue (int (count_list (map status rs) ABSENT)),
        StringValue (toString (int (count_list (map status rs) SHORT_HOURS)) @ ''/''
          @ toString (int (count_list (map status rs) HALF_DAY))),
        NumberValue (int (count_list (map status rs) WORK_ON_HOLIDAY)),
        StringValue (decimalToTimeString (totalHoursDecimalOf rs))]
   \<and> map totalHoursDecimal (generateSummaryStats rs)
     = [None, None, None, None, None, Some (totalHoursDecimalOf rs)]
   \<and> totalHoursDecimalOf rs
     = (if \<exists>r \<in> set rs. isNaN (workHoursDecimal r) then NaN
        else Num (sum_list (map (\<lambda>r. realOf (workHoursDecimal r)) rs)))"
proof -
  have "totalHoursDecimalOf rs
     = (if \<exists>r \<in> set rs. isNaN (workHoursDecimal r) then NaN
        else Num (sum_list (map (\<lambda>r. realOf (workHoursDecimal r)) rs)))"
    unfolding totalHoursDecimalOf_def using foldl_num_add_Num [of 0 rs] by simp
  then show ?thesis
    by (simp add: generateSummaryStats_def Let_def present_def absent_def halfDays_def
        shortHours_def holidays_def weekends_def workOnHoliday_def
        countStatus_count_list countStatus_either)
qed

theorem generateSummaryStats_metrics_witness:
  "map value (generateSummaryStats sampleRecords)
     = [NumberValue 3, NumberValue 1, NumberValue 1, StringValue ''1/0'', NumberValue 0,
        StringValue ''15:30'']
   \<and> map totalHoursDecimal (generateSummaryStats sampleRecords)
     = [None, None, None, None, None, Some (Num 15.5)]"
proof -
  have t: "totalHoursDecimalOf sampleRecords = Num 15.5"
    using generateSummaryStats_metrics [of sampleRecords]
    by (simp add: sampleRecords_def sampleRecord_def isNaN_def realOf_def)
  have f: "decimalToTimeString (Num 15.5) = ''15:30''"
    by code_simp
  have d: "toString 1 = ''1''" "toString 0 = ''0''"
    by code_simp+
  show ?thesis
    using generateSummaryStats_metrics [of sampleRecords] t f d
    by (simp add: sampleRecords_def sampleRecord_def)
qed

section \<open>The name of the exported file\<close>

text \<open>
  C5. The file is named after the employee and the day of the export. Of the spaces of
  the employee's name only the first is replaced by an underscore: exporting for
  Mary Ann Lee on 2024-01-01 writes a name that still holds a space.
\<close>

theorem exportFileName_first_space_only:
  "exportFileName 1704067200000 ''Mary Ann Lee''
     = ''Attendance_Report_Mary_Ann Lee_2024-01-01.xlsx''"
  by code_simp

section \<open>The ISO rendering names the UTC day\<close>

lemma digitValue_digit: "n < 10 \<Longrightarrow> digitValue (digit n) = n"
proof -
  assume "n < 10"
  then have "n \<in> {0, 1, 2, 3, 4, 5, 6, 7, 8, 9}" by auto
  then show ?thesis
    by (auto simp: digitValue_def digit_def)
qed

lemma decimalValue_snoc: "decimalValue (s @ [c]) = 10 * decimalValue s + digitValue c"
  by (simp add: decimalValue_def)

lemma decimalValue_digits: "decimalValue (digits n) = n"
proof (induction n rule: digits.induct)
  case (1 n)
  show ?case
  proof (cases "n < 10")
    case True
    then show ?thesis
      by (simp add: digits.simps [of n] decimalValue_def digitValue_digit)
  next
    case False
    then have "decimalValue (digits n) = 10 * decimalValue (digits (n div 10)) + digitValue (digit (n mod 10))"
      by (simp add: digits.simps [of n] decimalValue_snoc)
    also have "\<dots> = 10 * (n div 10) + n mod 10"
      using 1 False by (simp add: digitValue_digit)
    finally show ?thesis by simp
  qed
qed

lemma decimalValue_zero: "decimalValue (CHR ''0'' # s) = decimalValue s"
  by (simp add: decimalValue_def digitValue_def)

lemma decimalValue_zeros: "decimalValue (replicate k (CHR ''0'') @ s) = decimalValue s"
  by (induction k) (simp_all add: decimalValue_zero)

lemma decimalValue_padStart: "decimalValue (padStart k (CHR ''0'') (digits n)) = n"
  by (simp add: padStart_def decimalValue_zeros decimalValue_digits)

lemma length_digits_le2: "n < 100 \<Longrightarrow> length (digits n) \<le> 2"
proof (cases "n < 10")
  case True
  then show ?thesis by (simp add: digits.simps [of n])
next
  case False
  assume "n < 100"
  then have "n div 10 < 10" by simp
  then have "length (digits (n div 10)) = 1"
    by (simp add: digits.simps [of "n div 10"])
  with False show ?thesis by (simp add: digits.simps [of n])
qed

lemma length_pad2: "n < 100 \<Longrightarrow> length (padStart 2 (CHR ''0'') (digits n)) = 2"
  using length_digits_le2 [of n] by (simp add: padStart_def)

lemma mod_shift:
  fixes y k c :: int
  shows "(y - k * c) mod k = y mod k"
proof -
  have "(y - k * c) = y + k * (- c)" by simp
  then show ?thesis by (metis mod_mult_self2)
qed

lemma mod4_shift: "((y::int) - 1969 + 1) mod 4 = 0 \<longleftrightarrow> y mod 4 = 0"
  using mod_shift [of y 4 492] by simp
lemma mod100_shift: "((y::int) - 1901 + 1) mod 100 = 0 \<longleftrightarrow> y mod 100 = 0"
  using mod_shift [of y 100 19] by simp
lemma mod400_shift: "((y::int) - 1601 + 1) mod 400 = 0 \<longleftrightarrow> y mod 400 = 0"
  using mod_shift [of y 400 4] by simp
lemma leap_dvd: "(y::int) mod 400 = 0 \<Longrightarrow> y mod 100 = 0" "(y::int) mod 100 = 0 \<Longrightarrow> y mod 4 = 0"
proof -
  have "(100::int) dvd 400" "(4::int) dvd 100" by simp_all
  then show "y mod 400 = 0 \<Longrightarrow> y mod 100 = 0" "y mod 100 = 0 \<Longrightarrow> y mod 4 = 0"
    by (metis dvd_trans mod_eq_0_iff_dvd)+
qed

lemma int_div_bounds:
  fixes x k :: int
  assumes "0 < k"
  shows "k * (x div k) \<le> x" and "x < k * (x div k) + k"
proof -
  have "x = k * (x div k) + x mod k" by simp
  moreover have "0 \<le> x mod k" "x mod k < k" using assms by simp_all
  ultimately show "k * (x div k) \<le> x" and "x < k * (x div k) + k" by linarith+
qed

lemma div_unique_int:
  fixes x k q r :: int
  assumes "x = k * q + r" "0 \<le> r" "r < k"
  shows "x div k = q"
  using assms by (simp add: div_pos_pos_trivial)

lemma div_step:
  fixes x k :: int
  assumes "0 < k"
  shows "(x + 1) div k = x div k + (if (x + 1) mod k = 0 then 1 else 0)"
proof -
  define q where "q = (x + 1) div k"
  define r where "r = (x + 1) mod k"
  have x1: "x + 1 = k * q + r" by (simp add: q_def r_def)
  have r: "0 \<le> r" "r < k" using assms by (simp_all add: r_def)
  show ?thesis
  proof (cases "r = 0")
    case True
    have "x = k * (q - 1) + (k - 1)" using x1 True by (simp add: algebra_simps)
    then have "x div k = q - 1"
      using assms by (intro div_unique_int [where r = "k - 1"]) simp_all
    then show ?thesis using True by (simp add: q_def r_def)
  next
    case False
    have "x = k * q + (r - 1)" using x1 by simp
    then have "x div k = q"
      using r False by (intro div_unique_int [where r = "r - 1"]) simp_all
    then show ?thesis using False by (simp add: q_def r_def)
  qed
qed

lemma DayFromYear_Suc:
  "DayFromYear (y + 1) = DayFromYear y + 365 + (if InLeapYear y then 1 else 0)"
proof -
  have a: "(y + 1 - 1969) div 4 = (y - 1969) div 4 + (if y mod 4 = 0 then 1 else 0)"
    using div_step [of 4 "y - 1969"] mod4_shift [of y] by (simp add: algebra_simps)
  have b: "(y + 1 - 1901) div 100 = (y - 1901) div 100 + (if y mod 100 = 0 then 1 else 0)"
    using div_step [of 100 "y - 1901"] mod100_shift [of y] by (simp add: algebra_simps)
  have c: "(y + 1 - 1601) div 400 = (y - 1601) div 400 + (if y mod 400 = 0 then 1 else 0)"
    using div_step [of 400 "y - 1601"] mod400_shift [of y] by (simp add: algebra_simps)
  show ?thesis
  proof (cases "y mod 4 = 0")
    case False
    then have "y mod 100 \<noteq> 0" "y mod 400 \<noteq> 0" using leap_dvd [of y] by auto
    with False show ?thesis
      unfolding DayFromYear_def InLeapYear_def a b c by simp
  next
    case y4: True
    show ?thesis
    proof (cases "y mod 100 = 0")
      case False
      then have "y mod 400 \<noteq> 0" using leap_dvd [of y] by auto
      with False y4 show ?thesis
        unfolding DayFromYear_def InLeapYear_def a b c by simp
    next
      case True
      with y4 show ?thesis
        unfolding DayFromYear_def InLeapYear_def a b c by simp
    qed
  qed
qed

lemma DayFromYear_lower:
  assumes "146097 * n \<le> 400 * d"
  shows "DayFromYear (1970 + n - 1) \<le> d"
proof -
  define a where "a = (1970 + n - 1 - 1969) div 4"
  define b where "b = (1970 + n - 1 - 1901) div 100"
  define c where "c = (1970 + n - 1 - 1601) div 400"
  have "4 * a \<le> n" "n + 68 < 100 * b + 100" "400 * c \<le> n + 368"
    using int_div_bounds [of 4 "1970 + n - 1 - 1969"] int_div_bounds [of 100 "1970 + n - 1 - 1901"]
      int_div_bounds [of 400 "1970 + n - 1 - 1601"]
    by (simp_all add: a_def b_def c_def)
  moreover have "DayFromYear (1970 + n - 1) = 365 * n - 365 + a - b + c"
    by (simp add: DayFromYear_def a_def b_def c_def)
  ultimately show ?thesis
    using assms by linarith
qed

lemma DayFromYear_upper:
  assumes "400 * d < 146097 * n + 146097"
  shows "d < DayFromYear (1970 + n + 1 + 1)"
proof -
  define a where "a = (1970 + n + 1 + 1 - 1969) div 4"
  define b where "b = (1970 + n + 1 + 1 - 1901) div 100"
  define c where "c = (1970 + n + 1 + 1 - 1601) div 400"
  have "n + 3 < 4 * a + 4" "100 * b \<le> n + 71" "n + 371 < 400 * c + 400"
    using int_div_bounds [of 4 "1970 + n + 1 + 1 - 1969"] int_div_bounds [of 100 "1970 + n + 1 + 1 - 1901"]
      int_div_bounds [of 400 "1970 + n + 1 + 1 - 1601"]
    by (simp_all add: a_def b_def c_def)
  moreover have "DayFromYear (1970 + n + 1 + 1) = 365 * n + 730 + a - b + c"
    by (simp add: DayFromYear_def a_def b_def c_def)
  ultimately show ?thesis
    using assms by linarith
qed

lemma YearFromDay_bracket:
  "DayFromYear (YearFromDay d) \<le> d" "d < DayFromYear (YearFromDay d + 1)"
proof -
  define n where "n = (400 * d) div 146097"
  have n: "146097 * n \<le> 400 * d" "400 * d < 146097 * n + 146097"
    unfolding n_def using int_div_bounds [of 146097 "400 * d"] by simp_all
  note lower = DayFromYear_lower [OF n(1)] and upper = DayFromYear_upper [OF n(2)]
  have y: "YearFromDay d = (if d < DayFromYear (1970 + n) then 1970 + n - 1
                            else if DayFromYear (1970 + n + 1) \<le> d then 1970 + n + 1
                            else 1970 + n)"
    by (simp add: YearFromDay_def Let_def n_def)
  show "DayFromYear (YearFromDay d) \<le> d"
    unfolding y using lower by auto
  show "d < DayFromYear (YearFromDay d + 1)"
    unfolding y using upper by auto
qed

lemma dayInYear_bounds:
  "0 \<le> d - DayFromYear (YearFromDay d)"
  "d - DayFromYear (YearFromDay d) < 365 + (if InLeapYear (YearFromDay d) then 1 else 0)"
  using YearFromDay_bracket [of d] DayFromYear_Suc [of "YearFromDay d"] by auto

lemma MonthDate_bounds:
  assumes "0 \<le> d" "d < 365 + (if leap then 1 else 0)"
  shows "1 \<le> fst (MonthDate leap d)" "fst (MonthDate leap d) \<le> 12"
    "1 \<le> snd (MonthDate leap d)" "snd (MonthDate leap d) \<le> 31"
  using assms by (auto simp: MonthDate_def Let_def split: if_splits)

lemma MonthDate_inj:
  assumes "MonthDate leap d1 = MonthDate leap d2"
  shows "d1 = d2"
  using assms by (auto simp: MonthDate_def Let_def split: if_splits)

lemma length_digits_le: "0 < k \<Longrightarrow> n < 10 ^ k \<Longrightarrow> length (digits n) \<le> k"
proof (induction n arbitrary: k rule: digits.induct)
  case (1 n)
  show ?case
  proof (cases "n < 10")
    case True
    then show ?thesis using "1.prems" by (simp add: digits.simps [of n])
  next
    case False
    then obtain j where k: "k = Suc j" and j: "0 < j"
      using "1.prems" by (cases k; cases "k - 1") auto
    have "n div 10 < 10 ^ j"
      using "1.prems"(2) k by (simp add: less_mult_imp_div_less mult.commute)
    then have "length (digits (n div 10)) \<le> j"
      using "1.IH" [OF False j] by simp
    then show ?thesis using False k by (simp add: digits.simps [of n])
  qed
qed

lemma length_padStart_ge: "k \<le> length (padStart k c s)"
  by (simp add: padStart_def)

lemma length_padStart_eq: "length s \<le> k \<Longrightarrow> length (padStart k c s) = k"
  by (simp add: padStart_def)

lemma padded_inj:
  "padStart k (CHR ''0'') (digits a) = padStart k (CHR ''0'') (digits b) \<Longrightarrow> a = b"
  by (metis decimalValue_padStart)

lemma yearString_short:
  assumes "0 \<le> y \<and> y \<le> 9999"
  shows "length (yearString y) = 4"
proof -
  have "nat y \<le> 9999" using assms by linarith
  then have "nat y < 10 ^ 4" by simp
  then have "length (digits (nat y)) \<le> 4"
    by (intro length_digits_le) simp_all
  then show ?thesis using assms by (simp add: yearString_def length_padStart_eq)
qed

lemma yearString_long:
  assumes "\<not> (0 \<le> y \<and> y \<le> 9999)"
  shows "yearString y
           = (if y < 0 then CHR ''-'' else CHR ''+'') # padStart 6 (CHR ''0'') (digits (nat \<bar>y\<bar>))"
    and "7 \<le> length (yearString y)"
proof -
  show e: "yearString y
           = (if y < 0 then CHR ''-'' else CHR ''+'') # padStart 6 (CHR ''0'') (digits (nat \<bar>y\<bar>))"
    using assms by (simp add: yearString_def)
  show "7 \<le> length (yearString y)"
    unfolding e using length_padStart_ge [of 6 "CHR ''0''" "digits (nat \<bar>y\<bar>)"] by simp
qed

lemma yearString_inj:
  assumes "yearString y1 = yearString y2"
  shows "y1 = y2"
proof (cases "0 \<le> y1 \<and> y1 \<le> 9999")
  case in1: True
  have in2: "0 \<le> y2 \<and> y2 \<le> 9999"
  proof (rule ccontr)
    assume "\<not> (0 \<le> y2 \<and> y2 \<le> 9999)"
    from yearString_long(2) [OF this] yearString_short [OF in1] assms show False by simp
  qed
  have "padStart 4 (CHR ''0'') (digits (nat y1)) = padStart 4 (CHR ''0'') (digits (nat y2))"
    using assms in1 in2 by (simp add: yearString_def)
  then have "nat y1 = nat y2" by (rule padded_inj)
  with in1 in2 show ?thesis by linarith
next
  case out1: False
  have out2: "\<not> (0 \<le> y2 \<and> y2 \<le> 9999)"
  proof
    assume "0 \<le> y2 \<and> y2 \<le> 9999"
    from yearString_short [OF this] yearString_long(2) [OF out1] assms show False by simp
  qed
  have eq: "(if y1 < 0 then CHR ''-'' else CHR ''+'') = (if y2 < 0 then CHR ''-'' else CHR ''+'')"
    "padStart 6 (CHR ''0'') (digits (nat \<bar>y1\<bar>)) = padStart 6 (CHR ''0'') (digits (nat \<bar>y2\<bar>))"
    using assms unfolding yearString_long(1) [OF out1] yearString_long(1) [OF out2] by simp_all
  have sign: "(y1 < 0) = (y2 < 0)"
    using eq(1) by (simp split: if_splits)
  have "nat \<bar>y1\<bar> = nat \<bar>y2\<bar>"
    using eq(2) by (rule padded_inj)
  with sign show ?thesis by linarith
qed

lemma isoDate_inj:
  assumes "isoDate t1 = isoDate t2"
  shows "Day t1 = Day t2"
proof -
  define y1 where "y1 = YearFromDay (Day t1)"
  define y2 where "y2 = YearFromDay (Day t2)"
  define md1 where "md1 = MonthDate (InLeapYear y1) (Day t1 - DayFromYear y1)"
  define md2 where "md2 = MonthDate (InLeapYear y2) (Day t2 - DayFromYear y2)"
  define s1 where "s1 = CHR ''-'' # padStart 2 (CHR ''0'') (digits (nat (fst md1)))
                        @ CHR ''-'' # padStart 2 (CHR ''0'') (digits (nat (snd md1)))"
  define s2 where "s2 = CHR ''-'' # padStart 2 (CHR ''0'') (digits (nat (fst md2)))
                        @ CHR ''-'' # padStart 2 (CHR ''0'') (digits (nat (snd md2)))"
  have b1: "1 \<le> fst md1" "fst md1 \<le> 12" "1 \<le> snd md1" "snd md1 \<le> 31"
    unfolding md1_def y1_def
    using MonthDate_bounds [OF dayInYear_bounds, of "Day t1"] by simp_all
  have b2: "1 \<le> fst md2" "fst md2 \<le> 12" "1 \<le> snd md2" "snd md2 \<le> 31"
    unfolding md2_def y2_def
    using MonthDate_bounds [OF dayInYear_bounds, of "Day t2"] by simp_all
  have l1: "length (padStart 2 (CHR ''0'') (digits (nat (fst md1)))) = 2"
       "length (padStart 2 (CHR ''0'') (digits (nat (snd md1)))) = 2"
    using b1 by (simp_all add: length_pad2)
  have l2: "length (padStart 2 (CHR ''0'') (digits (nat (fst md2)))) = 2"
       "length (padStart 2 (CHR ''0'') (digits (nat (snd md2)))) = 2"
    using b2 by (simp_all add: length_pad2)
  have i1: "isoDate t1 = yearString y1 @ s1"
    by (simp add: isoDate_def Let_def y1_def md1_def s1_def split_beta)
  have i2: "isoDate t2 = yearString y2 @ s2"
    by (simp add: isoDate_def Let_def y2_def md2_def s2_def split_beta)
  have "length s1 = length s2"
    by (simp add: s1_def s2_def l1 l2)
  then have ys: "yearString y1 = yearString y2" and ss: "s1 = s2"
    using assms unfolding i1 i2 by simp_all
  have y: "y1 = y2" using ys by (rule yearString_inj)
  have "padStart 2 (CHR ''0'') (digits (nat (fst md1))) = padStart 2 (CHR ''0'') (digits (nat (fst md2)))
        \<and> padStart 2 (CHR ''0'') (digits (nat (snd md1))) = padStart 2 (CHR ''0'') (digits (nat (snd md2)))"
    using ss l1 l2 unfolding s1_def s2_def by simp
  then have "nat (fst md1) = nat (fst md2)" "nat (snd md1) = nat (snd md2)"
    by (auto dest: padded_inj)
  then have "fst md1 = fst md2" "snd md1 = snd md2"
    using b1 b2 by linarith+
  then have "md1 = md2"
    by (simp add: prod_eq_iff)
  then have "Day t1 - DayFromYear y1 = Day t2 - DayFromYear y2"
    unfolding md1_def md2_def y by (rule MonthDate_inj)
  then show ?thesis using y by simp
qed

lemma isoDate_eq_iff: "isoDate t1 = isoDate t2 \<longleftrightarrow> Day t1 = Day t2"
proof
  assume "isoDate t1 = isoDate t2"
  then show "Day t1 = Day t2" by (rule isoDate_inj)
next
  assume "Day t1 = Day t2"
  then show "isoDate t1 = isoDate t2" by (simp add: isoDate_def)
qed

section \<open>Properties of the Calendar Reconciler\<close>

subsection \<open>The earliest and the latest date\<close>

lemma minMaxDates_allDates: "minMaxDates es = foldl minMaxStep (None, None) (allDates es)"
proof -
  have "foldl (\<lambda>acc e. foldl minMaxStep acc (map date (records e))) acc es
          = foldl minMaxStep acc (concat (map (\<lambda>e. map date (records e)) es))" for acc
    by (induction es arbitrary: acc) simp_all
  then show ?thesis
    by (simp add: minMaxDates_def allDates_def)
qed

lemma foldl_minMaxStep_Some:
  "\<exists>mn mx. foldl minMaxStep (Some a, Some b) ds = (Some mn, Some mx)"
proof (induction ds arbitrary: a b)
  case Nil
  show ?case by simp
next
  case (Cons d ds)
  have "\<exists>a' b'. minMaxStep (Some a, Some b) d = (Some a', Some b')"
    by (simp add: minMaxStep_def)
  then show ?case using Cons.IH by auto
qed

lemma minMaxDates_cases:
  "(allDates es = [] \<and> minMaxDates es = (None, None))
   \<or> (\<exists>mn mx. minMaxDates es = (Some mn, Some mx))"
proof (cases "allDates es")
  case Nil
  then show ?thesis by (simp add: minMaxDates_allDates)
next
  case (Cons d ds)
  have "minMaxStep (None, None) d = (Some d, Some d)"
    by (simp add: minMaxStep_def)
  then show ?thesis
    using foldl_minMaxStep_Some [of d d ds] Cons by (simp add: minMaxDates_allDates)
qed

subsection \<open>The walk over the days\<close>

lemma getStatus_not_UNKNOWN: "getStatus cfg r hs \<noteq> Inr UNKNOWN"
  by (simp add: getStatus_def split: Date.splits)

lemma getStatus_raises: "getStatus cfg r hs = Inl RangeError \<longleftrightarrow> date r = InvalidDate"
  by (simp add: getStatus_def split: Date.splits)

lemma msPerDay_pos: "0 < msPerDay"
  by (simp add: msPerDay_def)

lemma fillDays_status_step:
  assumes "fillDays cfg hs emp m cur mx acc = Some y"
  shows "\<forall>rs. y = Inr rs \<longrightarrow> (\<forall>r \<in> set acc. status r \<noteq> UNKNOWN)
           \<longrightarrow> (\<forall>r \<in> set rs. status r \<noteq> UNKNOWN)"
  using assms
proof (induction rule: fillDays.raw_induct [rotated, consumes 1, case_names step])
  case (step walk cfg hs emp m cur mx acc y)
  show ?case
  proof (cases "date_le cur mx")
    case False
    then show ?thesis using step(2) by auto
  next
    case le: True
    show ?thesis
    proof (cases "toISODate cur")
      case (Inl e)
      then show ?thesis using step(2) le by auto
    next
      case (Inr dateString)
      define picked where
        "picked = (case m dateString of Some r \<Rightarrow> r | None \<Rightarrow> placeholder emp dateString cur)"
      show ?thesis
      proof (cases "getStatus cfg picked hs")
        case (Inl e)
        then show ?thesis
          using step(2) le Inr by (auto simp: picked_def)
      next
        case s: (Inr s)
        then have next_round:
          "walk cfg hs emp m (setDateNextDay cfg cur) mx (acc @ [picked\<lparr>status := s\<rparr>]) = Some y"
          using step(2) le Inr by (simp add: picked_def)
        have "s \<noteq> UNKNOWN"
          using s getStatus_not_UNKNOWN [of cfg picked hs] by auto
        then show ?thesis
          using step(1) [OF next_round] by auto
      qed
    qed
  qed
qed

lemma fillDays_status:
  assumes "fillDays cfg hs emp m cur mx [] = Some (Inr rs)" and "r \<in> set rs"
  shows "status r \<noteq> UNKNOWN"
  using fillDays_status_step [OF assms(1)] assms(2) by simp

text \<open>The walk returns on a host where a day later is a later time value.\<close>

lemma fillDays_returns:
  assumes forward: "\<And>t t'. setDateNextDay cfg (TimeValue t) = TimeValue t' \<Longrightarrow> t < t'"
  shows "\<exists>y. fillDays cfg hs emp m cur mx acc = Some y"
proof (cases "date_le cur mx")
  case False
  then show ?thesis by (subst fillDays.simps) simp
next
  case True
  then obtain t b where cur: "cur = TimeValue t" and mx: "mx = TimeValue b"
    by (cases cur; cases mx) (simp_all add: date_le_def)
  have "\<exists>y. fillDays cfg hs emp m (TimeValue t) (TimeValue b) acc = Some y"
  proof (induction "nat (b - t + 1)" arbitrary: t acc rule: less_induct)
    case less
    show ?case
    proof (cases "t \<le> b")
      case False
      then show ?thesis by (subst fillDays.simps) (simp add: date_le_def)
    next
      case le: True
      define picked where
        "picked = (case m (isoDate t) of Some r \<Rightarrow> r
                   | None \<Rightarrow> placeholder emp (isoDate t) (TimeValue t))"
      show ?thesis
      proof (cases "getStatus cfg picked hs")
        case (Inl e)
        then show ?thesis
          using le by (subst fillDays.simps) (simp add: date_le_def toISODate_def picked_def)
      next
        case (Inr s)
        have "\<exists>y. fillDays cfg hs emp m (setDateNextDay cfg (TimeValue t)) (TimeValue b)
                     (acc @ [picked\<lparr>status := s\<rparr>]) = Some y"
        proof (cases "setDateNextDay cfg (TimeValue t)")
          case InvalidDate
          then show ?thesis by (subst fillDays.simps) (simp add: date_le_def)
        next
          case (TimeValue t')
          then have "t < t'" by (rule forward)
          then have "nat (b - t' + 1) < nat (b - t + 1)"
            using le by simp
          then show ?thesis
            unfolding TimeValue by (rule less.hyps)
        qed
        then show ?thesis
          using le Inr
          by (subst fillDays.simps) (simp add: date_le_def toISODate_def picked_def)
      qed
    qed
  qed
  then show ?thesis by (simp add: cur mx)
qed

lemma fixed_offset_forward:
  assumes "\<And>t isUTC. LocalTZA cfg t isUTC = z"
  shows "setDateNextDay cfg (TimeValue t) = TimeValue t' \<Longrightarrow> t < t'"
  using assms msPerDay_pos
  by (auto simp: setDateNextDay_def TimeClip_def UTCTime_def LocalTime_def split: if_splits)

lemma analyzeEmployee_returns:
  assumes "\<And>t t'. setDateNextDay cfg (TimeValue t) = TimeValue t' \<Longrightarrow> t < t'"
  shows "\<exists>y. analyzeEmployee cfg hs mn mx e = Some y"
proof (cases "recordEntries (records e)")
  case (Inl err)
  then show ?thesis by (simp add: analyzeEmployee_def)
next
  case (Inr entries)
  obtain y where "fillDays cfg hs (employeeName e) (newMap entries) mn mx [] = Some y"
    using fillDays_returns [OF assms] by blast
  then show ?thesis
    using Inr by (cases y) (simp_all add: analyzeEmployee_def)
qed

lemma analyzeEmployees_returns:
  assumes "\<And>t t'. setDateNextDay cfg (TimeValue t) = TimeValue t' \<Longrightarrow> t < t'"
  shows "\<exists>y. analyzeEmployees cfg hs mn mx es = Some y"
proof (induction es)
  case Nil
  show ?case by simp
next
  case (Cons e es)
  obtain a where a: "analyzeEmployee cfg hs mn mx e = Some a"
    using analyzeEmployee_returns [OF assms] by blast
  obtain as where as: "analyzeEmployees cfg hs mn mx es = Some as"
    using Cons.IH by blast
  show ?case
    using a as by (cases a; cases as) simp_all
qed

lemma analyzeData_returns:
  assumes "\<And>t t'. setDateNextDay cfg (TimeValue t) = TimeValue t' \<Longrightarrow> t < t'"
  shows "\<exists>y. analyzeData cfg es hols = Some y"
proof (cases "es = []")
  case True
  then show ?thesis by (simp add: analyzeData_def)
next
  case False
  from minMaxDates_cases [of es] show ?thesis
  proof
    assume "allDates es = [] \<and> minMaxDates es = (None, None)"
    then show ?thesis using False by (simp add: analyzeData_def)
  next
    assume "\<exists>mn mx. minMaxDates es = (Some mn, Some mx)"
    then obtain mn mx where "minMaxDates es = (Some mn, Some mx)" by blast
    then show ?thesis
      using False analyzeEmployees_returns [OF assms, where hs = "set (map holiday_date hols)"
          and mn = mn and mx = mx and es = es]
      by (simp add: analyzeData_def)
  qed
qed

subsection \<open>Where the statuses of the output come from\<close>

lemma analyzeEmployees_Inr:
  assumes "analyzeEmployees cfg hs mn mx es = Some (Inr out)" and "e' \<in> set out"
  shows "\<exists>e \<in> set es. analyzeEmployee cfg hs mn mx e = Some (Inr e')"
  using assms
proof (induction es arbitrary: out)
  case Nil
  then show ?case by simp
next
  case (Cons e es)
  from Cons.prems(1) obtain a rest where
    a: "analyzeEmployee cfg hs mn mx e = Some (Inr a)" and
    rest: "analyzeEmployees cfg hs mn mx es = Some (Inr rest)" and
    out: "out = a # rest"
    by (auto split: option.splits sum.splits)
  show ?case
  proof (cases "e' = a")
    case True
    then show ?thesis using a by simp
  next
    case False
    then have "e' \<in> set rest" using Cons.prems(2) out by simp
    then show ?thesis using Cons.IH [OF rest] by auto
  qed
qed

lemma analyzeEmployee_status:
  assumes "analyzeEmployee cfg hs mn mx e = Some (Inr e')" and "r \<in> set (records e')"
  shows "status r \<noteq> UNKNOWN"
proof -
  from assms(1) obtain entries newRecords where
    new: "fillDays cfg hs (employeeName e) (newMap entries) mn mx [] = Some (Inr newRecords)" and
    e': "records e' = sort_key (\<lambda>r. getTime (date r)) newRecords"
    by (auto simp: analyzeEmployee_def split: option.splits sum.splits)
  have "r \<in> set newRecords"
    using assms(2) e' by simp
  with new show ?thesis by (rule fillDays_status)
qed

subsection \<open>Runs on the sample data\<close>

lemma sample_run:
  "analyzeData sampleConfig sampleEmployees []
     = Some (Inr
        [\<lparr> employeeName = ''Asha'',
           records =
             [sampleRecord 345600000 (Num 8) '''' PRESENT,
              (placeholder ''Asha'' ''1970-01-06'' (TimeValue 432000000))\<lparr>status := ABSENT\<rparr>,
              (placeholder ''Asha'' ''1970-01-07'' (TimeValue 518400000))\<lparr>status := ABSENT\<rparr>,
              (placeholder ''Asha'' ''1970-01-08'' (TimeValue 604800000))\<lparr>status := ABSENT\<rparr>,
              (placeholder ''Asha'' ''1970-01-09'' (TimeValue 691200000))\<lparr>status := ABSENT\<rparr>] \<rparr>,
         \<lparr> employeeName = ''Ben'',
           records =
             [(placeholder ''Ben'' ''1970-01-05'' (TimeValue 345600000))\<lparr>status := ABSENT\<rparr>,
              (placeholder ''Ben'' ''1970-01-06'' (TimeValue 432000000))\<lparr>status := ABSENT\<rparr>,
              (placeholder ''Ben'' ''1970-01-07'' (TimeValue 518400000))\<lparr>status := ABSENT\<rparr>,
              (placeholder ''Ben'' ''1970-01-08'' (TimeValue 604800000))\<lparr>status := ABSENT\<rparr>,
              (sampleRecord 691200000 (Num 0) '''' ABSENT)\<lparr>name := ''Ben''\<rparr>] \<rparr>])"
  by code_simp

lemma unaligned_first_run:
  "analyzeData sampleConfig unalignedEmployees []
     = Some (Inr [\<lparr> employeeName = ''Asha'',
                    records = [sampleRecord 72000000 (Num 8) '''' PRESENT,
                               sampleRecord 104400000 (Num 5) '''' SHORT_HOURS] \<rparr>])"
  by code_simp

lemma unaligned_second_run:
  "analyzeData sampleConfig
     [\<lparr> employeeName = ''Asha'',
        records = [sampleRecord 72000000 (Num 8) '''' PRESENT,
                   sampleRecord 104400000 (Num 5) '''' SHORT_HOURS] \<rparr>] []
     = Some (Inr [\<lparr> employeeName = ''Asha'',
                    records = [sampleRecord 72000000 (Num 8) '''' PRESENT] \<rparr>])"
  by code_simp

lemma march_first_run:
  "analyzeData newYorkConfig marchEmployees []
     = Some (Inr
        [\<lparr> employeeName = ''Asha'',
           records =
             [sampleRecord 1709942400000 (Num 8) '''' PRESENT,
              (placeholder ''Asha'' ''2024-03-10'' (TimeValue 1710028800000))\<lparr>status := WEEKEND\<rparr>,
              (placeholder ''Asha'' ''2024-03-10'' (TimeValue 1710111600000))\<lparr>status := WEEKEND\<rparr>,
              (placeholder ''Asha'' ''2024-03-11'' (TimeValue 1710198000000))\<lparr>status := ABSENT\<rparr>] \<rparr>])"
  by code_simp

lemma march_second_run:
  "analyzeData newYorkConfig
     [\<lparr> employeeName = ''Asha'',
        records =
          [sampleRecord 1709942400000 (Num 8) '''' PRESENT,
           (placeholder ''Asha'' ''2024-03-10'' (TimeValue 1710028800000))\<lparr>status := WEEKEND\<rparr>,
           (placeholder ''Asha'' ''2024-03-10'' (TimeValue 1710111600000))\<lparr>status := WEEKEND\<rparr>,
           (placeholder ''Asha'' ''2024-03-11'' (TimeValue 1710198000000))\<lparr>status := ABSENT\<rparr>] \<rparr>] []
     = Some (Inr
        [\<lparr> employeeName = ''Asha'',
           records =
             [sampleRecord 1709942400000 (Num 8) '''' PRESENT,
              (placeholder ''Asha'' ''2024-03-10'' (TimeValue 1710111600000))\<lparr>status := WEEKEND\<rparr>,
              (placeholder ''Asha'' ''2024-03-10'' (TimeValue 1710111600000))\<lparr>status := WEEKEND\<rparr>,
              (placeholder ''Asha'' ''2024-03-11'' (TimeValue 1710198000000))\<lparr>status := ABSENT\<rparr>] \<rparr>])"
  by code_simp

lemma sample_days:
  "recordDays unalignedEmployees = [[''1970-01-01'', ''1970-01-02'', ''1970-01-03'']]"
  "recordDays [\<lparr> employeeName = ''Asha'',
                 records = [sampleRecord 72000000 (Num 8) '''' PRESENT,
                            sampleRecord 104400000 (Num 5) '''' SHORT_HOURS] \<rparr>]
     = [[''1970-01-01'', ''1970-01-02'']]"
  "recordDays marchEmployees = [[''2024-03-09'', ''2024-03-12'']]"
  "recordDays
     [\<lparr> employeeName = ''Asha'',
        records =
          [sampleRecord 1709942400000 (Num 8) '''' PRESENT,
           (placeholder ''Asha'' ''2024-03-10'' (TimeValue 1710028800000))\<lparr>status := WEEKEND\<rparr>,
           (placeholder ''Asha'' ''2024-03-10'' (TimeValue 1710111600000))\<lparr>status := WEEKEND\<rparr>,
           (placeholder ''Asha'' ''2024-03-11'' (TimeValue 1710198000000))\<lparr>status := ABSENT\<rparr>] \<rparr>]
     = [[''2024-03-09'', ''2024-03-10'', ''2024-03-10'', ''2024-03-11'']]"
  by code_simp+

subsection \<open>The range of the reconciled days\<close>

text \<open>
  C1 asks that every employee of the output has one record for each calendar day from
  the earliest to the latest date of the input, each day once and in order. The code
  does not keep it. On a host in UTC, from records at 20:00 on 1970-01-01, at 05:00 on
  1970-01-02 and at 10:00 on 1970-01-03, the output holds the first two days and not the
  third: the walk starts at the earliest time value, moves on a day at a time and is
  compared with the latest time value, which it passes one round early. On a host in New
  York, from records at midnight UTC of 2024-03-09 and of 2024-03-12, the output holds
  2024-03-10 twice and not 2024-03-12: across the change to daylight time a day of local
  time is 23 hours.
\<close>

theorem analyzeData_misses_last_day:
  "recordDays unalignedEmployees = [[''1970-01-01'', ''1970-01-02'', ''1970-01-03'']]
   \<and> (\<exists>out. analyzeData sampleConfig unalignedEmployees [] = Some (Inr out)
          \<and> recordDays out = [[''1970-01-01'', ''1970-01-02'']])
   \<and> recordDays marchEmployees = [[''2024-03-09'', ''2024-03-12'']]
   \<and> (\<exists>out. analyzeData newYorkConfig marchEmployees [] = Some (Inr out)
          \<and> recordDays out = [[''2024-03-09'', ''2024-03-10'', ''2024-03-10'', ''2024-03-11'']])"
  using sample_days unaligned_first_run march_first_run by simp

subsection \<open>Idempotence\<close>

text \<open>
  C3 asks that reconciling the output of a reconciliation returns that output. The code
  does not keep it. On the host in UTC the first pass over the three records keeps two
  of them and the pass over that output keeps one. On the host in New York the first
  pass makes two placeholders for 2024-03-10, at 00:00 and at 23:00 UTC, and the second
  pass, which looks records up by their date string, takes the later one for both.
\<close>

theorem analyzeData_second_pass_differs:
  "(\<exists>out out'. analyzeData sampleConfig unalignedEmployees [] = Some (Inr out)
       \<and> analyzeData sampleConfig out [] = Some (Inr out')
       \<and> map (\<lambda>e. map (\<lambda>r. getTime (date r)) (records e)) out = [[72000000, 104400000]]
       \<and> map (\<lambda>e. map (\<lambda>r. getTime (date r)) (records e)) out' = [[72000000]])
   \<and> (\<exists>out out'. analyzeData newYorkConfig marchEmployees [] = Some (Inr out)
       \<and> analyzeData newYorkConfig out [] = Some (Inr out')
       \<and> map (\<lambda>e. map (\<lambda>r. getTime (date r)) (records e)) out
           = [[1709942400000, 1710028800000, 1710111600000, 1710198000000]]
       \<and> map (\<lambda>e. map (\<lambda>r. getTime (date r)) (records e)) out'
           = [[1709942400000, 1710111600000, 1710111600000, 1710198000000]])"
  using unaligned_first_run unaligned_second_run march_first_run march_second_run
  by (simp add: sampleRecord_def placeholder_def getTime_def)

subsection \<open>The statuses of the reconciled records\<close>

text \<open>
  C9. The classifier never returns UNKNOWN, and whenever reconciliation returns, no
  record of its output carries the status UNKNOWN: every record of the output went
  through the classifier, and when no employee has a record the output has none.
\<close>

theorem analyzeData_no_UNKNOWN:
  "getStatus cfg r hs \<noteq> Inr UNKNOWN
   \<and> (analyzeData cfg employees hols = Some (Inr out) \<longrightarrow>
        (\<forall>e \<in> set out. \<forall>r \<in> set (records e). status r \<noteq> UNKNOWN))"
proof -
  have "status r' \<noteq> UNKNOWN"
    if run: "analyzeData cfg employees hols = Some (Inr out)" and e: "e \<in> set out"
      and r: "r' \<in> set (records e)" for e r'
  proof (cases "employees = []")
    case True
    then show ?thesis using run e by (simp add: analyzeData_def)
  next
    case False
    from minMaxDates_cases [of employees] show ?thesis
    proof
      assume none: "allDates employees = [] \<and> minMaxDates employees = (None, None)"
      then have "out = employees"
        using run False by (simp add: analyzeData_def)
      then have "records e = []"
        using none e by (auto simp: allDates_def)
      then show ?thesis using r by simp
    next
      assume "\<exists>mn mx. minMaxDates employees = (Some mn, Some mx)"
      then obtain mn mx where "minMaxDates employees = (Some mn, Some mx)" by blast
      then have "analyzeEmployees cfg (set (map holiday_date hols)) mn mx employees
                   = Some (Inr out)"
        using run False by (simp add: analyzeData_def)
      from analyzeEmployees_Inr [OF this e] obtain e0 where
        "analyzeEmployee cfg (set (map holiday_date hols)) mn mx e0 = Some (Inr e)" by blast
      then show ?thesis using r by (rule analyzeEmployee_status)
    qed
  qed
  then show ?thesis
    using getStatus_not_UNKNOWN by blast
qed

theorem analyzeData_no_UNKNOWN_witness:
  "\<exists>out. analyzeData sampleConfig sampleEmployees [] = Some (Inr out)
     \<and> map (\<lambda>e. map status (records e)) out
         = [[PRESENT, ABSENT, ABSENT, ABSENT, ABSENT], [ABSENT, ABSENT, ABSENT, ABSENT, ABSENT]]
     \<and> UNKNOWN \<notin> status ` (\<Union>e \<in> set out. set (records e))"
proof -
  obtain out where out: "analyzeData sampleConfig sampleEmployees [] = Some (Inr out)"
    using sample_run by blast
  have "\<forall>e \<in> set out. \<forall>r \<in> set (records e). status r \<noteq> UNKNOWN"
    using analyzeData_no_UNKNOWN [where cfg = sampleConfig and employees = sampleEmployees
        and hols = "[]" and out = out and hs = "{}"
        and r = "sampleRecord 345600000 (Num 8) '''' UNKNOWN"] out
    by blast
  then have "status x \<noteq> UNKNOWN" if "x \<in> (\<Union>e \<in> set out. set (records e))" for x
    using that by blast
  then have "UNKNOWN \<notin> status ` (\<Union>e \<in> set out. set (records e))"
    by (simp add: image_iff) metis
  moreover have "map (\<lambda>e. map status (records e)) out
         = [[PRESENT, ABSENT, ABSENT, ABSENT, ABSENT], [ABSENT, ABSENT, ABSENT, ABSENT, ABSENT]]"
    using sample_run out by (simp add: sampleRecord_def placeholder_def)
  ultimately show ?thesis
    using out by (intro exI [of _ out]) simp
qed

end
